theory Spec2Isabelle
  imports Complex_Main "HOL-Library.Multiset" "HOL-Library.Sublist"
begin

section \<open>Data model of \<open>project.py\<close>\<close>

text \<open>
  The numbers of the program (urgency value, weight, capacity) are Python numbers that the
  specification calls real numbers. They are modelled as \<^typ>\<open>real\<close>: every arithmetic
  operation is exact. The rounding of IEEE-754 doubles is outside this model, and so are the
  special values NaN and infinity.
\<close>

datatype py_error = ValueError string | ZeroDivisionError

text \<open>\<open>class ReliefItem\<close>: a dataclass with the fields \<open>name\<close>, \<open>value\<close>, \<open>weight\<close>.\<close>

record ReliefItem =
  item_name :: string
  item_value :: real
  item_weight :: real

text \<open>
  The dataclass constructor stores the three fields and then runs \<open>__post_init__\<close>,
  which checks the weight first and the value second.
\<close>

definition ReliefItem_init :: "string \<Rightarrow> real \<Rightarrow> real \<Rightarrow> py_error + ReliefItem" where
  "ReliefItem_init n v w =
     (if w \<le> 0 then Inl (ValueError (''Weight must be positive for '' @ n))
      else if v \<le> 0 then Inl (ValueError (''Value must be positive for '' @ n))
      else Inr \<lparr>item_name = n, item_value = v, item_weight = w\<rparr>)"

text \<open>
  The property \<open>ratio\<close> is \<open>self.value / self.weight\<close>. Python raises
  \<open>ZeroDivisionError\<close> for a zero weight; that branch is written where \<open>solve\<close>
  reads the property (see \<open>solve\<close> below), here the quotient alone.
\<close>

definition ratio :: "ReliefItem \<Rightarrow> real" where
  "ratio x = item_value x / item_weight x"


text \<open>\<open>class Allocation\<close>.\<close>

record Allocation =
  alloc_name :: string
  weight_allocated :: real
  fraction :: real
  value_gained :: real
  alloc_ratio :: real

text \<open>
  The entries of the \<open>unallocated\<close> list are dictionaries with the fixed keys
  \<open>name\<close>, \<open>weight\<close>, \<open>value\<close>, \<open>ratio\<close>, \<open>fraction_unallocated\<close>.
\<close>

record Unallocated =
  un_name :: string
  un_weight :: real
  un_value :: real
  un_ratio :: real
  fraction_unallocated :: real

text \<open>\<open>class FractionalKnapsack\<close>: the solver object holds the capacity.\<close>

record FractionalKnapsack =
  capacity :: real

definition FractionalKnapsack_init :: "real \<Rightarrow> py_error + FractionalKnapsack" where
  "FractionalKnapsack_init c =
     (if c \<le> 0 then Inl (ValueError ''Capacity must be positive'')
      else Inr \<lparr>capacity = c\<rparr>)"

section \<open>The solver\<close>

text \<open>
  \<open>sorted(items, key=lambda x: x.ratio, reverse=True)\<close> builds a new list. CPython's
  sort is stable, and with \<open>reverse=True\<close> it reverses the list, sorts it ascending
  with the stable sort, and reverses the result.
\<close>

definition sorted_items :: "ReliefItem list \<Rightarrow> ReliefItem list" where
  "sorted_items items = rev (sort_key ratio (rev items))"

text \<open>The local variables of \<open>solve\<close> that the loop updates.\<close>

record loop_state =
  total_value :: real
  allocations :: "Allocation list"
  unallocated :: "Unallocated list"
  remaining_capacity :: real

text \<open>The body of \<open>for item in sorted_items\<close>, with its three branches in source order.\<close>

definition loop_body :: "ReliefItem \<Rightarrow> loop_state \<Rightarrow> loop_state" where
  "loop_body item s =
     (if remaining_capacity s \<le> 0 then
        s\<lparr>unallocated := unallocated s @
             [\<lparr>un_name = item_name item, un_weight = item_weight item,
               un_value = item_value item, un_ratio = ratio item,
               fraction_unallocated = 1\<rparr>]\<rparr>
      else if item_weight item \<le> remaining_capacity s then
        s\<lparr>allocations := allocations s @
             [\<lparr>alloc_name = item_name item, weight_allocated = item_weight item,
               fraction = 1, value_gained = item_value item, alloc_ratio = ratio item\<rparr>],
          remaining_capacity := remaining_capacity s - item_weight item,
          total_value := total_value s + item_value item\<rparr>
      else
        (let fr = remaining_capacity s / item_weight item;
             vg = item_value item * fr
         in s\<lparr>allocations := allocations s @
                [\<lparr>alloc_name = item_name item, weight_allocated = remaining_capacity s,
                  fraction = fr, value_gained = vg, alloc_ratio = ratio item\<rparr>],
              total_value := total_value s + vg,
              unallocated := unallocated s @
                [\<lparr>un_name = item_name item, un_weight = item_weight item * (1 - fr),
                  un_value = item_value item * (1 - fr), un_ratio = ratio item,
                  fraction_unallocated = 1 - fr\<rparr>],
              remaining_capacity := 0\<rparr>))"

fun loop :: "ReliefItem list \<Rightarrow> loop_state \<Rightarrow> loop_state" where
  "loop [] s = s"
| "loop (item # rest) s = loop rest (loop_body item s)"

definition init_state :: "FractionalKnapsack \<Rightarrow> loop_state" where
  "init_state self =
     \<lparr>total_value = 0, allocations = [], unallocated = [],
      remaining_capacity = capacity self\<rparr>"

text \<open>
  \<open>FractionalKnapsack.solve\<close>. The empty list returns at once. Otherwise the sort reads
  \<open>ratio\<close> of every item, which raises \<open>ZeroDivisionError\<close> when a weight is zero;
  then the loop runs over the sorted list.
\<close>

definition solve ::
  "FractionalKnapsack \<Rightarrow> ReliefItem list \<Rightarrow>
     py_error + (real \<times> Allocation list \<times> Unallocated list)" where
  "solve self items =
     (if items = [] then Inr (0, [], [])
      else if (\<exists>x \<in> set items. item_weight x = 0) then Inl ZeroDivisionError
      else (let s = loop (sorted_items items) (init_state self)
            in Inr (total_value s, allocations s, unallocated s)))"

section \<open>The solver on the object store\<close>

text \<open>
  In Python the argument \<open>items\<close> is a reference to a list object whose elements are
  references to \<open>ReliefItem\<close> objects, and both kinds of object are mutable. The store
  maps references to the objects they denote; \<open>next_ref\<close> is the first reference that is
  not yet allocated.
\<close>

type_synonym ref = nat

record store =
  item_obj :: "ref \<Rightarrow> ReliefItem"
  list_obj :: "ref \<Rightarrow> ref list"
  next_ref :: ref

text \<open>
  \<open>sorted(items, key=lambda x: x.ratio, reverse=True)\<close> allocates a new list object
  that holds the references of \<open>items\<close> in sorted order; the items are shared, not
  copied.
\<close>

definition py_sorted :: "ref \<Rightarrow> store \<Rightarrow> ref \<times> store" where
  "py_sorted l h =
     (next_ref h,
      h\<lparr>list_obj := (list_obj h)
           (next_ref h := rev (sort_key (\<lambda>r. ratio (item_obj h r)) (rev (list_obj h l)))),
        next_ref := Suc (next_ref h)\<rparr>)"

text \<open>The loop over the references of the sorted list: each turn reads the item's fields.\<close>

fun loop_store :: "ref list \<Rightarrow> loop_state \<Rightarrow> store \<Rightarrow> loop_state \<times> store" where
  "loop_store [] s h = (s, h)"
| "loop_store (r # rs) s h = loop_store rs (loop_body (item_obj h r) s) h"

definition solve_store ::
  "FractionalKnapsack \<Rightarrow> ref \<Rightarrow> store \<Rightarrow>
     (py_error + (real \<times> Allocation list \<times> Unallocated list)) \<times> store" where
  "solve_store self items h =
     (if list_obj h items = [] then (Inr (0, [], []), h)
      else if (\<exists>r \<in> set (list_obj h items). item_weight (item_obj h r) = 0)
        then (Inl ZeroDivisionError, h)
      else (let (sorted_ref, h1) = py_sorted items h;
                (s, h2) = loop_store (list_obj h1 sorted_ref) (init_state self) h1
            in (Inr (total_value s, allocations s, unallocated s), h2)))"

text \<open>The item values that a list reference denotes in a store.\<close>

definition items_of :: "store \<Rightarrow> ref \<Rightarrow> ReliefItem list" where
  "items_of h l = map (item_obj h) (list_obj h l)"

section \<open>The loop as functions of the remaining capacity\<close>










section \<open>Notions of the specification\<close>





section \<open>The repository's test data\<close>

text \<open>
  The items and the capacity of the test "Fractional Case: Partial Item" of
  \<open>run_test_cases\<close>, in a different input order.
\<close>

definition test_items :: "ReliefItem list" where
  "test_items =
     [\<lparr>item_name = ''C'', item_value = 120, item_weight = 30\<rparr>,
      \<lparr>item_name = ''A'', item_value = 60, item_weight = 10\<rparr>,
      \<lparr>item_name = ''B'', item_value = 100, item_weight = 20\<rparr>]"

definition test_solver :: FractionalKnapsack where
  "test_solver = \<lparr>capacity = 50\<rparr>"

text \<open>Four items, three of them with the same ratio 6, and a capacity that splits the third.\<close>

definition tie_items :: "ReliefItem list" where
  "tie_items =
     [\<lparr>item_name = ''S'', item_value = 10, item_weight = 5\<rparr>,
      \<lparr>item_name = ''P'', item_value = 60, item_weight = 10\<rparr>,
      \<lparr>item_name = ''Q'', item_value = 30, item_weight = 5\<rparr>,
      \<lparr>item_name = ''R'', item_value = 12, item_weight = 2\<rparr>]"

definition tie_solver :: FractionalKnapsack where
  "tie_solver = \<lparr>capacity = 16\<rparr>"

text \<open>A store that holds the test items at the references 0, 1, 2 and their list at 3.\<close>

definition test_store :: store where
  "test_store =
     \<lparr>item_obj = (\<lambda>r. if r = 0 then \<lparr>item_name = ''C'', item_value = 120, item_weight = 30\<rparr>
                       else if r = 1 then \<lparr>item_name = ''A'', item_value = 60, item_weight = 10\<rparr>
                       else \<lparr>item_name = ''B'', item_value = 100, item_weight = 20\<rparr>),
      list_obj = (\<lambda>l. if l = 3 then [0, 1, 2] else []),
      next_ref = 4\<rparr>"

section \<open>Construction\<close>


text \<open>
  Claim C7. Constructing an item with \<open>weight \<le> 0\<close> fails with the error that names
  the field weight and the item; with \<open>weight > 0\<close> and \<open>value \<le> 0\<close> it fails with
  the error that names the field value and the item; with both positive it succeeds and
  returns the item with exactly the given fields, whatever the name (the empty name
  included).
\<close>

theorem ReliefItem_init_cases:
  "(w \<le> 0 \<longrightarrow>
      ReliefItem_init n v w = Inl (ValueError (''Weight must be positive for '' @ n))) \<and>
   (0 < w \<and> v \<le> 0 \<longrightarrow>
      ReliefItem_init n v w = Inl (ValueError (''Value must be positive for '' @ n))) \<and>
   (0 < w \<and> 0 < v \<longrightarrow>
      ReliefItem_init n v w = Inr \<lparr>item_name = n, item_value = v, item_weight = w\<rparr>)"
  by (simp add: ReliefItem_init_def)

theorem ReliefItem_init_cases_witness:
  "ReliefItem_init ''Tent'' 10 0 = Inl (ValueError ''Weight must be positive for Tent'') \<and>
   ReliefItem_init ''Tent'' (-1) 5 = Inl (ValueError ''Value must be positive for Tent'') \<and>
   ReliefItem_init [] 10 5 = Inr \<lparr>item_name = [], item_value = 10, item_weight = 5\<rparr>"
  using ReliefItem_init_cases [where w = 0 and n = "''Tent''" and v = 10]
    ReliefItem_init_cases [where w = 5 and n = "''Tent''" and v = "-1"]
    ReliefItem_init_cases [where w = 5 and n = "[]" and v = 10]
  by simp

text \<open>
  Claim C6. Constructing the solver fails, with the error "Capacity must be positive",
  exactly when \<open>capacity \<le> 0\<close> (so for capacity zero too); for every positive
  capacity it succeeds and the solver holds that capacity.
\<close>

theorem FractionalKnapsack_init_cases:
  "(FractionalKnapsack_init c = Inl (ValueError ''Capacity must be positive'')) = (c \<le> 0) \<and>
   (FractionalKnapsack_init c = Inr \<lparr>capacity = c\<rparr>) = (0 < c)"
  by (auto simp: FractionalKnapsack_init_def)

theorem FractionalKnapsack_init_cases_witness:
  "FractionalKnapsack_init 0 = Inl (ValueError ''Capacity must be positive'') \<and>
   FractionalKnapsack_init (-3) = Inl (ValueError ''Capacity must be positive'') \<and>
   FractionalKnapsack_init 50 = Inr \<lparr>capacity = 50\<rparr>"
  using FractionalKnapsack_init_cases [of 0] FractionalKnapsack_init_cases [of "-3"]
    FractionalKnapsack_init_cases [of 50]
  by simp

section \<open>The empty input\<close>

text \<open>
  Claim C4. For every capacity \<open>c > 0\<close> the solver can be constructed, and solving the
  empty item list returns the triple \<open>(0, [], [])\<close>.
\<close>

theorem solve_empty:
  "0 < c \<Longrightarrow>
     \<exists>self. FractionalKnapsack_init c = Inr self \<and> solve self [] = Inr (0, [], [])"
  by (simp add: FractionalKnapsack_init_def solve_def)

theorem solve_empty_witness:
  "(0::real) < 100 \<and>
   (\<exists>self. FractionalKnapsack_init 100 = Inr self \<and> solve self [] = Inr (0, [], []))"
  using solve_empty [of 100] by simp

section \<open>The loop computes the capacity functions\<close>














section \<open>Optimality of the greedy pass\<close>















section \<open>The repository's test case\<close>

text \<open>
  The run of the test "Fractional Case: Partial Item": the expected value 240, with the
  allocations in descending order of ratio.
\<close>

lemma test_case_fractional:
  "solve test_solver test_items =
     Inr (240,
       [\<lparr>alloc_name = ''A'', weight_allocated = 10, fraction = 1, value_gained = 60,
         alloc_ratio = 6\<rparr>,
        \<lparr>alloc_name = ''B'', weight_allocated = 20, fraction = 1, value_gained = 100,
         alloc_ratio = 5\<rparr>,
        \<lparr>alloc_name = ''C'', weight_allocated = 20, fraction = 2/3, value_gained = 80,
         alloc_ratio = 4\<rparr>],
       [\<lparr>un_name = ''C'', un_weight = 10, un_value = 40, un_ratio = 4,
         fraction_unallocated = 1/3\<rparr>])"
  by (simp add: solve_def test_solver_def test_items_def sorted_items_def loop_body_def
      init_state_def ratio_def Let_def)

section \<open>Fully taken, partially taken and skipped items\<close>






section \<open>Stability of the order\<close>






text \<open>The run on the items with equal ratios: \<open>P\<close>, \<open>Q\<close>, \<open>R\<close> keep their input order.\<close>

lemma tie_case:
  "solve tie_solver tie_items =
     Inr (96,
       [\<lparr>alloc_name = ''P'', weight_allocated = 10, fraction = 1, value_gained = 60,
         alloc_ratio = 6\<rparr>,
        \<lparr>alloc_name = ''Q'', weight_allocated = 5, fraction = 1, value_gained = 30,
         alloc_ratio = 6\<rparr>,
        \<lparr>alloc_name = ''R'', weight_allocated = 1, fraction = 1/2, value_gained = 6,
         alloc_ratio = 6\<rparr>],
       [\<lparr>un_name = ''R'', un_weight = 1, un_value = 6, un_ratio = 6,
         fraction_unallocated = 1/2\<rparr>,
        \<lparr>un_name = ''S'', un_weight = 5, un_value = 10, un_ratio = 2,
         fraction_unallocated = 1\<rparr>])"
  by (simp add: solve_def tie_solver_def tie_items_def sorted_items_def loop_body_def
      init_state_def ratio_def Let_def)

section \<open>Value density of the allocations\<close>





section \<open>The arguments are not modified\<close>

lemma loop_store_eq: "loop_store rs s h = (loop (map (item_obj h) rs) s, h)"
  by (induction rs arbitrary: s) simp_all

lemma sort_key_map: "sort_key f (map g xs) = map g (sort_key (\<lambda>a. f (g a)) xs)"
proof (induction xs)
  case Nil
  show ?case by simp
next
  case (Cons x xs)
  have "insort_key f (g x) (map g ys) = map g (insort_key (\<lambda>a. f (g a)) x ys)" for ys
    by (induction ys) simp_all
  with Cons show ?case by simp
qed

lemma sorted_items_map:
  "sorted_items (map g rs) = map g (rev (sort_key (\<lambda>r. ratio (g r)) (rev rs)))"
  by (simp add: sorted_items_def rev_map sort_key_map)

lemma test_store_items: "items_of test_store 3 = test_items"
  by (simp add: items_of_def test_store_def test_items_def)

text \<open>
  Claim C9. A call of \<open>solve\<close> on an allocated list leaves the caller's list object
  and every item object as they were: the list holds the same references in the same
  order, every item has the same name, value and weight, and every list allocated before
  the call is unchanged (the call only allocates the sorted copy). The result is the
  value of \<open>solve\<close> on the items that the list denotes, so it depends on nothing else.
\<close>

theorem solve_store_frame:
  assumes "items < next_ref h" and "solve_store self items h = (res, h')"
  shows "list_obj h' items = list_obj h items \<and> item_obj h' = item_obj h \<and>
         items_of h' items = items_of h items \<and>
         (\<forall>l < next_ref h. list_obj h' l = list_obj h l) \<and>
         res = solve self (items_of h items)"
proof -
  consider (empty) "list_obj h items = []"
    | (zero) "list_obj h items \<noteq> []"
        "\<exists>r \<in> set (list_obj h items). item_weight (item_obj h r) = 0"
    | (run) "list_obj h items \<noteq> []"
        "\<not> (\<exists>r \<in> set (list_obj h items). item_weight (item_obj h r) = 0)"
    by blast
  then show ?thesis
  proof cases
    case empty
    with assms(2) have "h' = h" "res = Inr (0, [], [])"
      by (simp_all add: solve_store_def)
    with empty show ?thesis
      by (simp add: solve_def items_of_def)
  next
    case zero
    with assms(2) have "h' = h" "res = Inl ZeroDivisionError"
      by (simp_all add: solve_store_def)
    with zero show ?thesis
      by (simp add: solve_def items_of_def)
  next
    case run
    let ?rs = "rev (sort_key (\<lambda>r. ratio (item_obj h r)) (rev (list_obj h items)))"
    let ?h1 = "h\<lparr>list_obj := (list_obj h)(next_ref h := ?rs), next_ref := Suc (next_ref h)\<rparr>"
    let ?s = "loop (map (item_obj h) ?rs) (init_state self)"
    have "solve_store self items h =
        (Inr (total_value ?s, allocations ?s, unallocated ?s), ?h1)"
      using run by (simp add: solve_store_def py_sorted_def loop_store_eq)
    with assms(2) have h': "h' = ?h1"
      and res: "res = Inr (total_value ?s, allocations ?s, unallocated ?s)"
      by simp_all
    have frame: "list_obj h' items = list_obj h items" "item_obj h' = item_obj h"
      "\<forall>l < next_ref h. list_obj h' l = list_obj h l"
      using assms(1) by (simp_all add: h')
    then have same: "items_of h' items = items_of h items"
      by (simp add: items_of_def)
    have "solve self (items_of h items) = Inr (total_value ?s, allocations ?s, unallocated ?s)"
      using run by (simp add: solve_def items_of_def sorted_items_map Let_def)
    with frame same res show ?thesis
      by simp
  qed
qed

theorem solve_store_frame_witness:
  "(3::nat) < next_ref test_store \<and>
   (\<exists>res h'. solve_store test_solver 3 test_store = (res, h') \<and>
      list_obj h' 3 = list_obj test_store 3 \<and> item_obj h' = item_obj test_store \<and>
      items_of h' 3 = items_of test_store 3 \<and>
      (\<forall>l < next_ref test_store. list_obj h' l = list_obj test_store l) \<and>
      res = solve test_solver (items_of test_store 3))"
proof -
  obtain res h' where run: "solve_store test_solver 3 test_store = (res, h')"
    by (cases "solve_store test_solver 3 test_store")
  have "(3::nat) < next_ref test_store"
    by (simp add: test_store_def)
  then show ?thesis
    using solve_store_frame [OF _ run] run by blast
qed

end
